theory Spec2Isabelle
  imports Complex_Main "HOL-Library.AList"
begin

section \<open>Values of the runtime\<close>

text \<open>
  The program is TypeScript running on a JavaScript engine: two pure functions that
  read and write a nested document along a path, a store that keeps the document as
  text, and the save action of an editor.  Values are the primitives, references to
  heap objects (arrays and plain objects), so that sharing and mutation through an
  alias can be expressed, and the built-in objects a property read can reach from
  them.

  What the model leaves out of the engine:
  \<^item> Numbers: a text the engine accepts as a numeric literal denotes its exact
    mathematical value here; the rounding of that value to the nearest binary64 and
    the sign of zero are not represented.  Which branch a test for NaN takes does not
    depend on either.
  \<^item> Strings: a \<^typ>\<open>string\<close> is read as a sequence of code units below 256.
  \<^item> Built-in objects: they are as the engine creates them (no program has changed
    them).  \<^verbatim>\<open>Object.prototype\<close>, its methods and the \<^verbatim>\<open>Object\<close>
    constructor are values; of the other built-in prototypes only the names of the
    members are represented, and of a function only that its \<^verbatim>\<open>caller\<close> and
    \<^verbatim>\<open>arguments\<close> throw.  Every object of the heap has the prototype it was
    created with.  A read or a write whose result depends on more than this has the
    outcome \<open>Beyond\<close>: the model does not say what the engine does there.
  \<^item> The order in which an object enumerates its keys is the order of their creation
    (the engine puts integer-like keys first); nothing below depends on it.
\<close>

datatype jsnum = NaN | PosInfinity | NegInfinity | Finite rat

type_synonym addr = nat

datatype builtin =
    ObjectPrototype
  | ObjectConstructor
  | ObjectPrototypeMethod string

datatype jsval =
    JUndefined
  | JNull
  | JBool bool
  | JNum jsnum
  | JStr string
  | JRef addr
  | JBuiltin builtin

section \<open>Built-in string and number conversions used by the editor\<close>

text \<open>
  White space as \<^verbatim>\<open>String.prototype.trim\<close> and the conversion of a
  string to a number both define it: TAB, LF, VT, FF, CR, SPACE and NBSP among the
  code units below 256.
\<close>

definition is_white_space :: "char \<Rightarrow> bool" where
  "is_white_space c =
     (let n = (of_char c :: nat)
      in n = 9 \<or> n = 10 \<or> n = 11 \<or> n = 12 \<or> n = 13 \<or> n = 32 \<or> n = 160)"

definition trim :: "string \<Rightarrow> string" where
  "trim s = rev (dropWhile is_white_space (rev (dropWhile is_white_space s)))"

definition lower_char :: "char \<Rightarrow> char" where
  "lower_char c =
     (let n = (of_char c :: nat)
      in if (65 \<le> n \<and> n \<le> 90) \<or> (192 \<le> n \<and> n \<le> 222 \<and> n \<noteq> 215)
         then char_of (n + 32) else c)"

definition toLowerCase :: "string \<Rightarrow> string" where
  "toLowerCase s = map lower_char s"

definition is_digit :: "char \<Rightarrow> bool" where
  "is_digit c = (let n = (of_char c :: nat) in 48 \<le> n \<and> n \<le> 57)"

definition hex_digit :: "char \<Rightarrow> nat option" where
  "hex_digit c =
     (let n = (of_char c :: nat)
      in if 48 \<le> n \<and> n \<le> 57 then Some (n - 48)
         else if 97 \<le> n \<and> n \<le> 102 then Some (n - 87)
         else if 65 \<le> n \<and> n \<le> 70 then Some (n - 55)
         else None)"

text \<open>The value of a digit string in a base; every character must be a digit below the base.\<close>

fun digits_value :: "nat \<Rightarrow> nat \<Rightarrow> string \<Rightarrow> nat option" where
  "digits_value b acc [] = Some acc"
| "digits_value b acc (c # cs) =
     (case hex_digit c of
        None \<Rightarrow> None
      | Some d \<Rightarrow> if d < b then digits_value b (acc * b + d) cs else None)"

definition dec :: "string \<Rightarrow> nat" where
  "dec ds = (case digits_value 10 0 ds of Some n \<Rightarrow> n | None \<Rightarrow> 0)"

definition scale10 :: "rat \<Rightarrow> int \<Rightarrow> rat" where
  "scale10 q e = (if 0 \<le> e then q * 10 ^ nat e else q / 10 ^ nat (- e))"

text \<open>\<^verbatim>\<open>ExponentPart\<close> (optional) at the end of a decimal literal.\<close>

definition parse_exponent :: "string \<Rightarrow> int option" where
  "parse_exponent r =
     (case r of
        [] \<Rightarrow> Some 0
      | c # r1 \<Rightarrow>
          if c = CHR ''e'' \<or> c = CHR ''E'' then
            (let (neg, ds) =
               (case r1 of
                  [] \<Rightarrow> (False, [])
                | d # r2 \<Rightarrow>
                    if d = CHR ''-'' then (True, r2)
                    else if d = CHR ''+'' then (False, r2)
                    else (False, r1))
             in if ds \<noteq> [] \<and> list_all is_digit ds
                then Some (if neg then - int (dec ds) else int (dec ds))
                else None)
          else None)"

text \<open>\<^verbatim>\<open>StrUnsignedDecimalLiteral\<close>: \<^verbatim>\<open>Infinity\<close>, or digits with an
  optional fraction and exponent, at least one digit before or after the point.\<close>

definition parse_unsigned_decimal :: "string \<Rightarrow> jsnum option" where
  "parse_unsigned_decimal s =
     (if s = ''Infinity'' then Some PosInfinity
      else
        let ip = takeWhile is_digit s;
            r1 = dropWhile is_digit s;
            (fp, r2) =
              (case r1 of
                 [] \<Rightarrow> ([], [])
               | c # r \<Rightarrow>
                   if c = CHR ''.'' then (takeWhile is_digit r, dropWhile is_digit r)
                   else ([], r1))
        in if ip = [] \<and> fp = [] then None
           else
             (case parse_exponent r2 of
                None \<Rightarrow> None
              | Some e \<Rightarrow>
                  Some (Finite (scale10
                    (of_nat (dec ip) + of_nat (dec fp) / 10 ^ length fp) e))))"

definition negate :: "jsnum \<Rightarrow> jsnum" where
  "negate n =
     (case n of
        NaN \<Rightarrow> NaN
      | PosInfinity \<Rightarrow> NegInfinity
      | NegInfinity \<Rightarrow> PosInfinity
      | Finite q \<Rightarrow> Finite (- q))"

text \<open>\<^verbatim>\<open>StrDecimalLiteral\<close>: an optional sign before the unsigned literal.\<close>

definition parse_decimal :: "string \<Rightarrow> jsnum option" where
  "parse_decimal s =
     (case s of
        [] \<Rightarrow> None
      | c # r \<Rightarrow>
          if c = CHR ''+'' then parse_unsigned_decimal r
          else if c = CHR ''-'' then map_option negate (parse_unsigned_decimal r)
          else parse_unsigned_decimal s)"

text \<open>\<^verbatim>\<open>NonDecimalIntegerLiteral\<close>: \<^verbatim>\<open>0x\<close>, \<^verbatim>\<open>0o\<close>, \<^verbatim>\<open>0b\<close>
  (either case) before at least one digit of that base; no sign.\<close>

definition parse_non_decimal :: "string \<Rightarrow> nat option" where
  "parse_non_decimal s =
     (case s of
        z # p # ds \<Rightarrow>
          if z = CHR ''0'' \<and> ds \<noteq> [] then
            (if p = CHR ''x'' \<or> p = CHR ''X'' then digits_value 16 0 ds
             else if p = CHR ''o'' \<or> p = CHR ''O'' then digits_value 8 0 ds
             else if p = CHR ''b'' \<or> p = CHR ''B'' then digits_value 2 0 ds
             else None)
          else None
      | _ \<Rightarrow> None)"

text \<open>
  \<^verbatim>\<open>Number(input)\<close> for a string: white space is trimmed, the empty string is
  zero, a numeric literal is its value, anything else is NaN.
\<close>

definition Number :: "string \<Rightarrow> jsnum" where
  "Number input =
     (let t = trim input
      in if t = [] then Finite 0
         else
           (case parse_non_decimal t of
              Some n \<Rightarrow> Finite (of_nat n)
            | None \<Rightarrow>
                (case parse_decimal t of
                   Some v \<Rightarrow> v
                 | None \<Rightarrow> NaN)))"

definition Number_isNaN :: "jsnum \<Rightarrow> bool" where
  "Number_isNaN n = (n = NaN)"

section \<open>Heap objects and property access\<close>

text \<open>
  An array holds its elements by index and, as every object of the engine, may also
  carry named properties; a plain object holds properties by name, in the order they
  were created.  A hole of an array reads as \<open>undefined\<close> and is represented by
  that value.  The heap is the list of the objects allocated so far; an address is an
  index into it, and a new object is appended.  An array has the prototype
  \<^verbatim>\<open>Array.prototype\<close> and a plain object \<^verbatim>\<open>Object.prototype\<close>.
\<close>

datatype jsobj =
    JArray "jsval list" "(string \<times> jsval) list"
  | JObject "(string \<times> jsval) list"

type_synonym heap = "jsobj list"

text \<open>
  How an operation ends when it does not return a value: by throwing, or in a way
  that this model does not determine.
\<close>

datatype js_error = TypeError | RangeError

datatype abrupt = Throw js_error | Beyond

definition alloc :: "heap \<Rightarrow> jsobj \<Rightarrow> heap \<times> jsval" where
  "alloc h ob = (h @ [ob], JRef (length h))"

text \<open>The object at an address.  An address outside the heap does not occur in a run;
  it reads as an object without properties.\<close>

definition deref :: "heap \<Rightarrow> addr \<Rightarrow> jsobj" where
  "deref h a = (if a < length h then h ! a else JObject [])"

text \<open>A path step is a field name or an index (\<^verbatim>\<open>string | number\<close>).  Used as a
  property key, an index is its decimal representation; this is so for the integers
  every one of which is a number of the engine, those up to \<open>2\<^sup>5\<^sup>3 - 1\<close>.  The key
  of a larger number is not represented.\<close>

datatype step = Key string | Idx nat

fun show_nat :: "nat \<Rightarrow> string" where
  "show_nat n =
     (if n < 10 then [char_of (48 + n)]
      else show_nat (n div 10) @ [char_of (48 + n mod 10)])"

declare show_nat.simps [simp del]

definition to_key :: "step \<Rightarrow> string" where
  "to_key s = (case s of Key k \<Rightarrow> k | Idx n \<Rightarrow> show_nat n)"

definition safe_step :: "step \<Rightarrow> bool" where
  "safe_step s = (case s of Key k \<Rightarrow> True | Idx n \<Rightarrow> n \<le> 9007199254740991)"

definition decimal :: "string \<Rightarrow> nat" where
  "decimal ds = foldl (\<lambda>acc c. acc * 10 + (of_char c - 48)) 0 ds"

text \<open>A property key is an integer index when it is the canonical decimal
  representation of a natural number, and an array index when that number is below
  \<open>2\<^sup>3\<^sup>2 - 1\<close>.\<close>

definition canonical_index :: "string \<Rightarrow> nat option" where
  "canonical_index k =
     (if k \<noteq> [] \<and> list_all is_digit k \<and> (k = ''0'' \<or> hd k \<noteq> CHR ''0'')
      then Some (decimal k) else None)"

definition array_index :: "string \<Rightarrow> nat option" where
  "array_index k =
     (case canonical_index k of
        None \<Rightarrow> None
      | Some i \<Rightarrow> if i < 4294967295 then Some i else None)"

definition lookup :: "(string \<times> jsval) list \<Rightarrow> string \<Rightarrow> jsval" where
  "lookup ps k = (case map_of ps k of Some v \<Rightarrow> v | None \<Rightarrow> JUndefined)"

subsection \<open>Members of the built-in prototypes\<close>

text \<open>
  The properties of \<^verbatim>\<open>Object.prototype\<close> that have a string key: the constructor,
  ten methods, and the accessor \<^verbatim>\<open>__proto__\<close>.  \<open>object_prototype_member k\<close> is
  what an object whose prototype is \<^verbatim>\<open>Object.prototype\<close> reads at a key \<open>k\<close> that
  it does not have itself; the getter of \<^verbatim>\<open>__proto__\<close> returns that prototype.
\<close>

definition object_prototype_methods :: "string list" where
  "object_prototype_methods =
     [''__defineGetter__'', ''__defineSetter__'', ''__lookupGetter__'',
      ''__lookupSetter__'', ''hasOwnProperty'', ''isPrototypeOf'',
      ''propertyIsEnumerable'', ''toLocaleString'', ''toString'', ''valueOf'']"

definition object_prototype_member :: "string \<Rightarrow> jsval" where
  "object_prototype_member k =
     (if k = ''__proto__'' then JBuiltin ObjectPrototype
      else if k = ''constructor'' then JBuiltin ObjectConstructor
      else if k \<in> set object_prototype_methods then JBuiltin (ObjectPrototypeMethod k)
      else JUndefined)"

text \<open>
  The names of the members of \<^verbatim>\<open>Object.prototype\<close>, \<^verbatim>\<open>Array.prototype\<close>,
  \<^verbatim>\<open>String.prototype\<close>, \<^verbatim>\<open>Number.prototype\<close> and \<^verbatim>\<open>Boolean.prototype\<close>,
  with the own \<^verbatim>\<open>length\<close> of arrays and strings: those of ECMAScript 2025 and its
  Annex B, and names engines have shipped besides.  A key outside this list is
  inherited by no array, string, number or boolean.
\<close>

definition builtin_names :: "string list" where
  "builtin_names =
     [''__defineGetter__'', ''__defineSetter__'', ''__lookupGetter__'',
      ''__lookupSetter__'', ''__proto__'', ''constructor'', ''hasOwnProperty'',
      ''isPrototypeOf'', ''propertyIsEnumerable'', ''toLocaleString'', ''toString'',
      ''valueOf'', ''toSource'', ''watch'', ''unwatch'',
      ''length'', ''at'', ''concat'', ''copyWithin'', ''entries'', ''every'', ''fill'',
      ''filter'', ''find'', ''findIndex'', ''findLast'', ''findLastIndex'', ''flat'',
      ''flatMap'', ''forEach'', ''includes'', ''indexOf'', ''join'', ''keys'',
      ''lastIndexOf'', ''map'', ''pop'', ''push'', ''reduce'', ''reduceRight'',
      ''reverse'', ''shift'', ''slice'', ''some'', ''sort'', ''splice'', ''toReversed'',
      ''toSorted'', ''toSpliced'', ''unshift'', ''values'', ''with'', ''group'',
      ''groupBy'', ''groupToMap'', ''groupByToMap'',
      ''anchor'', ''big'', ''blink'', ''bold'', ''charAt'', ''charCodeAt'',
      ''codePointAt'', ''contains'', ''endsWith'', ''fixed'', ''fontcolor'',
      ''fontsize'', ''isWellFormed'', ''italics'', ''link'', ''localeCompare'',
      ''match'', ''matchAll'', ''normalize'', ''padEnd'', ''padStart'', ''quote'',
      ''repeat'', ''replace'', ''replaceAll'', ''search'', ''small'', ''split'',
      ''startsWith'', ''strike'', ''sub'', ''substr'', ''substring'', ''sup'',
      ''toLocaleLowerCase'', ''toLocaleUpperCase'', ''toLowerCase'', ''toUpperCase'',
      ''toWellFormed'', ''trim'', ''trimEnd'', ''trimLeft'', ''trimRight'',
      ''trimStart'',
      ''toExponential'', ''toFixed'', ''toPrecision'']"

definition builtin_name :: "string \<Rightarrow> bool" where
  "builtin_name k = (k \<in> set builtin_names)"

text \<open>
  The property \<open>k\<close> of a built-in object.  \<^verbatim>\<open>Object.prototype\<close> has its members,
  and its own prototype is null.  The constructor and the methods are functions:
  \<^verbatim>\<open>caller\<close> and \<^verbatim>\<open>arguments\<close> are accessors of \<^verbatim>\<open>Function.prototype\<close> that
  throw a TypeError; the other properties of a function are not represented.
\<close>

definition builtin_prop :: "builtin \<Rightarrow> string \<Rightarrow> abrupt + jsval" where
  "builtin_prop b k =
     (case b of
        ObjectPrototype \<Rightarrow>
          Inr (if k = ''__proto__'' then JNull else object_prototype_member k)
      | _ \<Rightarrow>
          if k = ''caller'' \<or> k = ''arguments'' then Inl (Throw TypeError)
          else Inl Beyond)"

subsection \<open>Reading a property\<close>

text \<open>
  The property \<open>k\<close> of a heap object.  A plain object has its own properties and
  inherits those of \<^verbatim>\<open>Object.prototype\<close>.  An array has its elements, its
  \<^verbatim>\<open>length\<close> and its own named properties; an index at or past the end, or at a
  hole, reads as \<open>undefined\<close>; what it inherits from \<^verbatim>\<open>Array.prototype\<close> is not
  represented.
\<close>

definition get_prop :: "jsobj \<Rightarrow> string \<Rightarrow> abrupt + jsval" where
  "get_prop ob k =
     (case ob of
        JArray xs ps \<Rightarrow>
          (case array_index k of
             Some i \<Rightarrow> Inr (if i < length xs then xs ! i else JUndefined)
           | None \<Rightarrow>
               if k = ''length'' then Inr (JNum (Finite (of_nat (length xs))))
               else
                 (case map_of ps k of
                    Some v \<Rightarrow> Inr v
                  | None \<Rightarrow> if builtin_name k then Inl Beyond else Inr JUndefined))
      | JObject ps \<Rightarrow>
          (case map_of ps k of
             Some v \<Rightarrow> Inr v
           | None \<Rightarrow> Inr (object_prototype_member k)))"

definition nullish :: "jsval \<Rightarrow> bool" where
  "nullish v = (v = JUndefined \<or> v = JNull)"

text \<open>The property \<open>k\<close> of a value that is neither null nor undefined: a property of
  the object referred to; a character of a string or its \<^verbatim>\<open>length\<close>; for a string,
  a number or a boolean, nothing at a key that no built-in prototype has.\<close>

definition property :: "heap \<Rightarrow> jsval \<Rightarrow> string \<Rightarrow> abrupt + jsval" where
  "property h v k =
     (case v of
        JRef a \<Rightarrow> get_prop (deref h a) k
      | JStr s \<Rightarrow>
          (case canonical_index k of
             Some i \<Rightarrow> Inr (if i < length s then JStr [s ! i] else JUndefined)
           | None \<Rightarrow>
               if k = ''length'' then Inr (JNum (Finite (of_nat (length s))))
               else if builtin_name k then Inl Beyond
               else Inr JUndefined)
      | JBuiltin b \<Rightarrow> builtin_prop b k
      | _ \<Rightarrow> if builtin_name k then Inl Beyond else Inr JUndefined)"

text \<open>\<^verbatim>\<open>v[k]\<close> raises a TypeError on null and undefined; \<^verbatim>\<open>v?.[k]\<close> is
  undefined there.\<close>

definition js_get :: "heap \<Rightarrow> jsval \<Rightarrow> string \<Rightarrow> abrupt + jsval" where
  "js_get h v k = (if nullish v then Inl (Throw TypeError) else property h v k)"

definition js_get_opt :: "heap \<Rightarrow> jsval \<Rightarrow> string \<Rightarrow> abrupt + jsval" where
  "js_get_opt h v k = (if nullish v then Inr JUndefined else property h v k)"

subsection \<open>Writing a property\<close>

text \<open>
  Assigning to the \<^verbatim>\<open>length\<close> of an array converts the value to a number and
  throws a RangeError unless that number is an integer from 0 to \<open>2\<^sup>3\<^sup>2 - 1\<close>; the
  array is then cut or extended with holes.  \<open>ToNumber\<close>: a plain object without
  \<^verbatim>\<open>valueOf\<close> and \<^verbatim>\<open>toString\<close> of its own converts to the text
  \<^verbatim>\<open>[object Object]\<close> and so to NaN; the conversion of other objects is not
  represented.  A value that is not an integer may round to one, which is not
  represented either.
\<close>

definition ToNumber :: "heap \<Rightarrow> jsval \<Rightarrow> abrupt + jsnum" where
  "ToNumber h x =
     (case x of
        JUndefined \<Rightarrow> Inr NaN
      | JNull \<Rightarrow> Inr (Finite 0)
      | JBool b \<Rightarrow> Inr (Finite (if b then 1 else 0))
      | JNum n \<Rightarrow> Inr n
      | JStr s \<Rightarrow> Inr (Number s)
      | JRef a \<Rightarrow>
          (case deref h a of
             JObject ps \<Rightarrow>
               if map_of ps ''valueOf'' = None \<and> map_of ps ''toString'' = None
               then Inr NaN else Inl Beyond
           | JArray xs ps \<Rightarrow> Inl Beyond)
      | JBuiltin b \<Rightarrow> Inl Beyond)"

definition array_length :: "jsnum \<Rightarrow> abrupt + nat" where
  "array_length n =
     (case n of
        Finite q \<Rightarrow>
          if q = of_int \<lfloor>q\<rfloor> then
            (if 0 \<le> q \<and> q \<le> 4294967295 then Inr (nat \<lfloor>q\<rfloor>)
             else Inl (Throw RangeError))
          else Inl Beyond
      | _ \<Rightarrow> Inl (Throw RangeError))"

definition set_length :: "jsval list \<Rightarrow> nat \<Rightarrow> jsval list" where
  "set_length xs n = take n xs @ replicate (n - length xs) JUndefined"

text \<open>
  Assigning to a named property.  A property the object has is given the value.  One
  it has not is created, except \<^verbatim>\<open>__proto__\<close>: that runs the setter of
  \<^verbatim>\<open>Object.prototype\<close>, which does nothing with a value that is neither an object
  nor null, and otherwise changes the prototype of the object, which is not
  represented.  (The other inherited members are writable data properties: the
  assignment creates a property of the object.)
\<close>

definition proto_setter_ignores :: "jsval \<Rightarrow> bool" where
  "proto_setter_ignores x =
     (case x of
        JUndefined \<Rightarrow> True
      | JBool b \<Rightarrow> True
      | JNum n \<Rightarrow> True
      | JStr s \<Rightarrow> True
      | _ \<Rightarrow> False)"

definition set_named ::
    "(string \<times> jsval) list \<Rightarrow> string \<Rightarrow> jsval \<Rightarrow> abrupt + (string \<times> jsval) list" where
  "set_named ps k x =
     (case map_of ps k of
        Some old \<Rightarrow> Inr (AList.update k x ps)
      | None \<Rightarrow>
          if k = ''__proto__'' then (if proto_setter_ignores x then Inr ps else Inl Beyond)
          else Inr (AList.update k x ps))"

text \<open>Writing an index at or past the end of an array extends it, leaving holes.\<close>

definition set_prop :: "heap \<Rightarrow> jsobj \<Rightarrow> string \<Rightarrow> jsval \<Rightarrow> abrupt + jsobj" where
  "set_prop h ob k x =
     (case ob of
        JArray xs ps \<Rightarrow>
          (case array_index k of
             Some i \<Rightarrow>
               Inr (JArray (if i < length xs then xs[i := x]
                            else xs @ replicate (i - length xs) JUndefined @ [x]) ps)
           | None \<Rightarrow>
               if k = ''length'' then
                 (case ToNumber h x of
                    Inl e \<Rightarrow> Inl e
                  | Inr n \<Rightarrow>
                      (case array_length n of
                         Inl e \<Rightarrow> Inl e
                       | Inr len \<Rightarrow> Inr (JArray (set_length xs len) ps)))
               else
                 (case set_named ps k x of
                    Inl e \<Rightarrow> Inl e
                  | Inr ps' \<Rightarrow> Inr (JArray xs ps')))
      | JObject ps \<Rightarrow>
          (case set_named ps k x of
             Inl e \<Rightarrow> Inl e
           | Inr ps' \<Rightarrow> Inr (JObject ps')))"

text \<open>\<^verbatim>\<open>target[k] = x\<close> in strict code (a module): the object referred to is updated
  in place.  On null and undefined it raises a TypeError; on a string, a number or a
  boolean too, except at \<^verbatim>\<open>__proto__\<close>, whose setter returns without effect.  A
  write to a built-in object is not represented.\<close>

definition js_set :: "heap \<Rightarrow> jsval \<Rightarrow> string \<Rightarrow> jsval \<Rightarrow> abrupt + heap" where
  "js_set h target k x =
     (case target of
        JRef a \<Rightarrow>
          if a < length h then
            (case set_prop h (h ! a) k x of
               Inl e \<Rightarrow> Inl e
             | Inr ob \<Rightarrow> Inr (h[a := ob]))
          else Inl Beyond
      | JUndefined \<Rightarrow> Inl (Throw TypeError)
      | JNull \<Rightarrow> Inl (Throw TypeError)
      | JBuiltin b \<Rightarrow> Inl Beyond
      | _ \<Rightarrow> if k = ''__proto__'' then Inr h else Inl (Throw TypeError))"

subsection \<open>Tests and spreads\<close>

definition isArray :: "heap \<Rightarrow> jsval \<Rightarrow> bool" where
  "isArray h v =
     (case v of
        JRef a \<Rightarrow> (case deref h a of JArray xs ps \<Rightarrow> True | JObject ps \<Rightarrow> False)
      | _ \<Rightarrow> False)"

definition truthy :: "jsval \<Rightarrow> bool" where
  "truthy v =
     (case v of
        JUndefined \<Rightarrow> False
      | JNull \<Rightarrow> False
      | JBool b \<Rightarrow> b
      | JNum n \<Rightarrow> n \<noteq> NaN \<and> n \<noteq> Finite 0
      | JStr s \<Rightarrow> s \<noteq> []
      | JRef a \<Rightarrow> True
      | JBuiltin b \<Rightarrow> True)"

definition typeof :: "jsval \<Rightarrow> string" where
  "typeof v =
     (case v of
        JUndefined \<Rightarrow> ''undefined''
      | JNull \<Rightarrow> ''object''
      | JBool b \<Rightarrow> ''boolean''
      | JNum n \<Rightarrow> ''number''
      | JStr s \<Rightarrow> ''string''
      | JRef a \<Rightarrow> ''object''
      | JBuiltin b \<Rightarrow> (case b of ObjectPrototype \<Rightarrow> ''object'' | _ \<Rightarrow> ''function''))"

text \<open>\<^verbatim>\<open>[...v]\<close>, used on arrays only: the elements in index order (named properties
  are not copied).\<close>

definition array_spread :: "heap \<Rightarrow> jsval \<Rightarrow> jsval list" where
  "array_spread h v =
     (case v of
        JRef a \<Rightarrow> (case deref h a of JArray xs ps \<Rightarrow> xs | JObject ps \<Rightarrow> [])
      | _ \<Rightarrow> [])"

definition indexed :: "jsval list \<Rightarrow> (string \<times> jsval) list" where
  "indexed xs = zip (map show_nat [0 ..< length xs]) xs"

text \<open>\<^verbatim>\<open>{ ...v }\<close>: the own enumerable properties of \<open>v\<close>.  Those of a string are
  its characters, by index; null, undefined, numbers, booleans and the built-in
  objects have none.\<close>

definition object_spread :: "heap \<Rightarrow> jsval \<Rightarrow> (string \<times> jsval) list" where
  "object_spread h v =
     (case v of
        JRef a \<Rightarrow>
          (case deref h a of
             JObject ps \<Rightarrow> ps
           | JArray xs ps \<Rightarrow> indexed xs @ ps)
      | JStr s \<Rightarrow> indexed (map (\<lambda>c. JStr [c]) s)
      | _ \<Rightarrow> [])"

section \<open>The path navigation primitives\<close>

text \<open>
  \<^verbatim>\<open>getValueAtPath(root, path)\<close>: the loop over the segments, with its guard
  \<^verbatim>\<open>if (cur == null) return undefined\<close>.
\<close>

fun getValueAtPath :: "heap \<Rightarrow> jsval \<Rightarrow> step list \<Rightarrow> abrupt + jsval" where
  "getValueAtPath h cur [] = Inr cur"
| "getValueAtPath h cur (seg # segs) =
     (if nullish cur then Inr JUndefined
      else if safe_step seg then
        (case js_get h cur (to_key seg) of
           Inl e \<Rightarrow> Inl e
         | Inr v \<Rightarrow> getValueAtPath h v segs)
      else Inl Beyond)"

text \<open>
  \<^verbatim>\<open>updateValueAtPath(root, path, next)\<close>.  The path argument is any runtime value:
  \<open>NotAnArray\<close> stands for one that fails \<^verbatim>\<open>Array.isArray\<close>.

  \<open>clone_root\<close> is the object built on line 13 of the source and
  \<open>clone_child\<close> the one built on lines 22 to 24, each allocated where it is
  evaluated; \<open>navigate\<close> is the loop over all steps but the last (it carries
  \<^verbatim>\<open>cur\<close> and \<^verbatim>\<open>src\<close>), and the last step is assigned after it.
\<close>

datatype path_arg = NotAnArray | PathArray "step list"

definition clone_root :: "heap \<Rightarrow> jsval \<Rightarrow> jsobj" where
  "clone_root h rt =
     (if isArray h rt then JArray (array_spread h rt) []
      else JObject (object_spread h rt))"

definition clone_child :: "heap \<Rightarrow> jsval \<Rightarrow> jsobj" where
  "clone_child h childSrc =
     (if isArray h childSrc then JArray (array_spread h childSrc) []
      else if truthy childSrc \<and> typeof childSrc = ''object''
        then JObject (object_spread h childSrc)
      else JObject [])"

fun navigate :: "heap \<Rightarrow> jsval \<Rightarrow> jsval \<Rightarrow> step list \<Rightarrow> abrupt + heap \<times> jsval" where
  "navigate h cur src [] = Inr (h, cur)"
| "navigate h cur src (k # ks) =
     (if safe_step k then
        (case js_get_opt h src (to_key k) of
           Inl e \<Rightarrow> Inl e
         | Inr childSrc \<Rightarrow>
             (let (h1, child) = alloc h (clone_child h childSrc)
              in case js_set h1 cur (to_key k) child of
                   Inl e \<Rightarrow> Inl e
                 | Inr h2 \<Rightarrow> navigate h2 child childSrc ks))
      else Inl Beyond)"

definition updateValueAtPath ::
    "heap \<Rightarrow> jsval \<Rightarrow> path_arg \<Rightarrow> jsval \<Rightarrow> abrupt + heap \<times> jsval" where
  "updateValueAtPath h rt path nxt =
     (case path of
        NotAnArray \<Rightarrow> Inr (h, nxt)
      | PathArray ks \<Rightarrow>
          if length ks = 0 then Inr (h, nxt)
          else
            (let (h1, clone) = alloc h (clone_root h rt)
             in case navigate h1 clone rt (butlast ks) of
                  Inl e \<Rightarrow> Inl e
                | Inr (h2, cur) \<Rightarrow>
                    if safe_step (last ks) then
                      (case js_set h2 cur (to_key (last ks)) nxt of
                         Inl e \<Rightarrow> Inl e
                       | Inr h3 \<Rightarrow> Inr (h3, clone))
                    else Inl Beyond))"

text \<open>
  A container is an allocated array or plain object.  \<open>through_containers h v p\<close>:
  every node the path \<open>p\<close> passes through from \<open>v\<close>, before its last step, is
  a container.
\<close>

definition is_container :: "heap \<Rightarrow> jsval \<Rightarrow> bool" where
  "is_container h v = (case v of JRef a \<Rightarrow> a < length h | _ \<Rightarrow> False)"


text \<open>
  A plain step names no member of a built-in prototype, and its key is represented.
\<close>

definition plain_step :: "step \<Rightarrow> bool" where
  "plain_step s = (safe_step s \<and> \<not> builtin_name (to_key s))"

text \<open>
  Well-formed heaps.  A document value is a primitive or a reference to an object of
  the heap.  Every value stored in an object of a closed heap is a document value of
  the heap; in a document heap, moreover, arrays have no named properties, as in every
  document \<^verbatim>\<open>JSON.parse\<close> builds.
\<close>

definition val_ok :: "heap \<Rightarrow> jsval \<Rightarrow> bool" where
  "val_ok h v = (case v of JRef a \<Rightarrow> a < length h | JBuiltin b \<Rightarrow> False | _ \<Rightarrow> True)"

definition obj_values :: "jsobj \<Rightarrow> jsval list" where
  "obj_values ob = (case ob of JArray xs ps \<Rightarrow> xs @ map snd ps | JObject ps \<Rightarrow> map snd ps)"

definition heap_closed :: "heap \<Rightarrow> bool" where
  "heap_closed h = list_all (\<lambda>ob. list_all (val_ok h) (obj_values ob)) h"

definition plain_array :: "jsobj \<Rightarrow> bool" where
  "plain_array ob = (case ob of JArray xs ps \<Rightarrow> ps = [] | JObject ps \<Rightarrow> True)"

definition document_heap :: "heap \<Rightarrow> bool" where
  "document_heap h = (heap_closed h \<and> list_all plain_array h)"

text \<open>\<open>extends h' h\<close>: the heap \<open>h'\<close> holds every object of \<open>h\<close>, unchanged, at
  its address (and possibly more objects after them).\<close>

definition extends :: "heap \<Rightarrow> heap \<Rightarrow> bool" where
  "extends h' h = (length h \<le> length h' \<and> take (length h) h' = h)"

subsection \<open>Reads and writes at plain keys\<close>

text \<open>
  At a key that names no built-in member a read finds a property of the value itself
  or nothing, and a write sets or creates a property (lemmas \<open>get_prop_plain\<close>,
  \<open>set_prop_plain\<close> and \<open>js_get_opt_plain\<close> below).  These are the functions
  that say which.
\<close>

definition get_data :: "jsobj \<Rightarrow> string \<Rightarrow> jsval" where
  "get_data ob k =
     (case ob of
        JArray xs ps \<Rightarrow>
          (case array_index k of
             Some i \<Rightarrow> if i < length xs then xs ! i else JUndefined
           | None \<Rightarrow> lookup ps k)
      | JObject ps \<Rightarrow> lookup ps k)"


definition data_prop :: "heap \<Rightarrow> jsval \<Rightarrow> string \<Rightarrow> jsval" where
  "data_prop h v k =
     (case v of
        JRef a \<Rightarrow> get_data (deref h a) k
      | JStr s \<Rightarrow>
          (case canonical_index k of
             Some i \<Rightarrow> if i < length s then JStr [s ! i] else JUndefined
           | None \<Rightarrow> JUndefined)
      | _ \<Rightarrow> JUndefined)"

definition data_opt :: "heap \<Rightarrow> jsval \<Rightarrow> string \<Rightarrow> jsval" where
  "data_opt h v k = (if nullish v then JUndefined else data_prop h v k)"


text \<open>
  Reading a value back as a tree, to the given depth (a heap may hold cycles): what a
  reader of the document sees.  Named properties of arrays are left out; a built-in
  object is no part of a document.
\<close>

datatype tree =
    TUndefined
  | TNull
  | TBool bool
  | TNum jsnum
  | TStr string
  | TArr "tree list"
  | TObj "(string \<times> tree) list"


section \<open>The field editor: coercion of a draft text\<close>

text \<open>
  \<^verbatim>\<open>coerceLike\<close> of \<^verbatim>\<open>NodeModal/index.tsx\<close>: the draft text is converted
  towards the runtime type of the value it replaces.
\<close>

definition coerceLike :: "jsval \<Rightarrow> string \<Rightarrow> jsval" where
  "coerceLike orig input =
     (case orig of
        JNum m \<Rightarrow>
          (let n = Number input in if Number_isNaN n then orig else JNum n)
      | JBool b \<Rightarrow>
          (let t = toLowerCase (trim input)
           in if t = ''true'' then JBool True
              else if t = ''false'' then JBool False
              else orig)
      | JNull \<Rightarrow>
          (let t = toLowerCase (trim input)
           in if t = ''null'' then JNull else JStr input)
      | _ \<Rightarrow> JStr input)"

section \<open>The document store\<close>

text \<open>
  \<^verbatim>\<open>useJson\<close>: the stored text and the \<^verbatim>\<open>loading\<close> flag.  The two
  collaborating stores (\<^verbatim>\<open>useGraph\<close>, \<^verbatim>\<open>useFile\<close>) are outside the
  program text studied here; what the store sends them is recorded, call by call.
\<close>

datatype graph_call = SetGraph string | ClearGraph

datatype file_call = SetContents string bool

record store =
  json :: string
  loading :: bool
  graph_calls :: "graph_call list"
  file_calls :: "file_call list"

definition initialStates :: store where
  "initialStates = \<lparr>json = ''{}'', loading = True, graph_calls = [], file_calls = []\<rparr>"

definition getJson :: "store \<Rightarrow> string" where
  "getJson st = json st"

definition setJson :: "string \<Rightarrow> store \<Rightarrow> store" where
  "setJson txt st =
     st\<lparr>json := txt, loading := False,
        graph_calls := graph_calls st @ [SetGraph txt],
        file_calls := file_calls st @ [SetContents txt True]\<rparr>"

definition clear :: "store \<Rightarrow> store" where
  "clear st =
     st\<lparr>json := [], loading := False,
        graph_calls := graph_calls st @ [ClearGraph],
        file_calls := file_calls st @ [SetContents [] True]\<rparr>"

text \<open>
  \<^verbatim>\<open>updateAtPath\<close>.  \<^verbatim>\<open>JSON.parse\<close> and \<^verbatim>\<open>JSON.stringify\<close> are built-ins
  of the engine and are parameters here: \<open>parse\<close> allocates the document it reads
  (\<open>None\<close> when it throws), \<open>stringify\<close> reads the heap (and may throw, on a cycle);
  its result is taken at its declared type, a text.
  \<^verbatim>\<open>get().json || "{}"\<close> replaces the empty text, the only falsy one.
\<close>

type_synonym parser = "heap \<Rightarrow> string \<Rightarrow> (heap \<times> jsval) option"

type_synonym serialiser = "heap \<Rightarrow> jsval \<Rightarrow> abrupt + string"

definition updateAtPath ::
    "parser \<Rightarrow> serialiser \<Rightarrow> heap \<Rightarrow> path_arg \<Rightarrow> jsval \<Rightarrow> store \<Rightarrow> abrupt + store" where
  "updateAtPath parse stringify h path nxt st =
     (let current = (if json st \<noteq> [] then json st else ''{}'')
      in case parse h current of
           None \<Rightarrow> Inr st
         | Some (h1, obj) \<Rightarrow>
             (case updateValueAtPath h1 obj path nxt of
                Inl e \<Rightarrow> Inl e
              | Inr (h2, updated) \<Rightarrow>
                  (case stringify h2 updated of
                     Inl e \<Rightarrow> Inl e
                   | Inr txt \<Rightarrow> Inr (setJson txt st))))"

section \<open>A reference reader of JSON texts\<close>

text \<open>
  The grammar of ECMA-404, which \<^verbatim>\<open>JSON.parse\<close> accepts, as a recursive-descent
  reader; it is used to evaluate concrete texts.  The first argument of the mutually
  recursive functions bounds the depth of the recursion; \<open>parse_json\<close> starts it above
  the length of the text, each recursive call being made after at least one character
  has been consumed.  A member given twice keeps its first position and its last value.  An escape \<^verbatim>\<open>\u\<close> above \<^verbatim>\<open>00FF\<close> denotes a code unit outside the
  alphabet of this model and is not read.
\<close>

definition json_ws :: "char \<Rightarrow> bool" where
  "json_ws c = (let n = (of_char c :: nat) in n = 32 \<or> n = 9 \<or> n = 10 \<or> n = 13)"

definition skip_ws :: "string \<Rightarrow> string" where
  "skip_ws s = dropWhile json_ws s"

definition simple_escape :: "char \<Rightarrow> char option" where
  "simple_escape e =
     (if e = CHR ''\"'' then Some CHR ''\"''
      else if e = CHR 0x5C then Some (CHR 0x5C)
      else if e = CHR ''/'' then Some CHR ''/''
      else if e = CHR ''b'' then Some (CHR 0x08)
      else if e = CHR ''f'' then Some (CHR 0x0C)
      else if e = CHR ''n'' then Some (CHR 0x0A)
      else if e = CHR ''r'' then Some (CHR 0x0D)
      else if e = CHR ''t'' then Some (CHR 0x09)
      else None)"

definition hex4 :: "string \<Rightarrow> nat option" where
  "hex4 s = (if length s < 4 then None else digits_value 16 0 (take 4 s))"

text \<open>The characters of a string literal after its opening quote, and the text after
  its closing quote.\<close>

fun parse_string_body :: "string \<Rightarrow> (string \<times> string) option" where
  "parse_string_body [] = None"
| "parse_string_body (c # r) =
     (if c = CHR ''\"'' then Some ([], r)
      else if c = CHR 0x5C then
        (case r of
           [] \<Rightarrow> None
         | e # r2 \<Rightarrow>
             if e = CHR ''u'' then
               (case hex4 r2 of
                  None \<Rightarrow> None
                | Some n \<Rightarrow>
                    if n < 256 then
                      map_option (\<lambda>(cs, rest). (char_of n # cs, rest))
                        (parse_string_body (drop 4 r2))
                    else None)
             else
               (case simple_escape e of
                  None \<Rightarrow> None
                | Some ch \<Rightarrow>
                    map_option (\<lambda>(cs, rest). (ch # cs, rest)) (parse_string_body r2)))
      else if (of_char c :: nat) < 32 then None
      else map_option (\<lambda>(cs, rest). (c # cs, rest)) (parse_string_body r))"

definition number_char :: "char \<Rightarrow> bool" where
  "number_char c =
     (is_digit c \<or> c = CHR ''-'' \<or> c = CHR ''+'' \<or> c = CHR ''.'' \<or> c = CHR ''e''
        \<or> c = CHR ''E'')"

text \<open>A JSON number: an optional minus, an integer part without a superfluous leading
  zero, an optional fraction with at least one digit, an optional exponent.\<close>

definition parse_json_number :: "string \<Rightarrow> jsnum option" where
  "parse_json_number tok =
     (let neg = (tok \<noteq> [] \<and> hd tok = CHR ''-'');
          u = (if neg then tl tok else tok);
          ip = takeWhile is_digit u;
          r1 = dropWhile is_digit u
      in if ip = [] \<or> (ip \<noteq> ''0'' \<and> hd ip = CHR ''0'') then None
         else if r1 \<noteq> [] \<and> hd r1 = CHR ''.'' \<and> takeWhile is_digit (tl r1) = [] then None
         else map_option (if neg then negate else id) (parse_unsigned_decimal u))"

fun parse_value :: "nat \<Rightarrow> string \<Rightarrow> (tree \<times> string) option"
  and parse_elements :: "nat \<Rightarrow> string \<Rightarrow> (tree list \<times> string) option"
  and parse_members :: "nat \<Rightarrow> string \<Rightarrow> ((string \<times> tree) list \<times> string) option"
where
  "parse_value 0 s = None"
| "parse_value (Suc n) s =
     (case skip_ws s of
        [] \<Rightarrow> None
      | c # r \<Rightarrow>
          if c = CHR ''{'' then
            (case skip_ws r of
               [] \<Rightarrow> None
             | d # r2 \<Rightarrow>
                 if d = CHR ''}'' then Some (TObj [], r2)
                 else map_option (\<lambda>(ms, rest). (TObj ms, rest)) (parse_members n r))
          else if c = CHR ''['' then
            (case skip_ws r of
               [] \<Rightarrow> None
             | d # r2 \<Rightarrow>
                 if d = CHR '']'' then Some (TArr [], r2)
                 else map_option (\<lambda>(vs, rest). (TArr vs, rest)) (parse_elements n r))
          else if c = CHR ''\"'' then
            map_option (\<lambda>(cs, rest). (TStr cs, rest)) (parse_string_body r)
          else if take 4 (c # r) = ''true'' then Some (TBool True, drop 4 (c # r))
          else if take 5 (c # r) = ''false'' then Some (TBool False, drop 5 (c # r))
          else if take 4 (c # r) = ''null'' then Some (TNull, drop 4 (c # r))
          else
            map_option (\<lambda>x. (TNum x, dropWhile number_char (c # r)))
              (parse_json_number (takeWhile number_char (c # r))))"
| "parse_elements 0 s = None"
| "parse_elements (Suc n) s =
     (case parse_value n s of
        None \<Rightarrow> None
      | Some (v, r) \<Rightarrow>
          (case skip_ws r of
             [] \<Rightarrow> None
           | c # r2 \<Rightarrow>
               if c = CHR '','' then
                 map_option (\<lambda>(vs, rest). (v # vs, rest)) (parse_elements n r2)
               else if c = CHR '']'' then Some ([v], r2)
               else None))"
| "parse_members 0 s = None"
| "parse_members (Suc n) s =
     (case skip_ws s of
        [] \<Rightarrow> None
      | q # r \<Rightarrow>
          if q = CHR ''\"'' then
            (case parse_string_body r of
               None \<Rightarrow> None
             | Some (k, r1) \<Rightarrow>
                 (case skip_ws r1 of
                    [] \<Rightarrow> None
                  | c # r2 \<Rightarrow>
                      if c = CHR '':'' then
                        (case parse_value n r2 of
                           None \<Rightarrow> None
                         | Some (v, r3) \<Rightarrow>
                             (case skip_ws r3 of
                                [] \<Rightarrow> None
                              | d # r4 \<Rightarrow>
                                  if d = CHR '','' then
                                    map_option (\<lambda>(ms, rest). ((k, v) # ms, rest))
                                      (parse_members n r4)
                                  else if d = CHR ''}'' then Some ([(k, v)], r4)
                                  else None))
                      else None))
          else None)"

definition parse_json :: "string \<Rightarrow> tree option" where
  "parse_json s =
     (case parse_value (Suc (length s)) s of
        None \<Rightarrow> None
      | Some (t, rest) \<Rightarrow> if skip_ws rest = [] then Some t else None)"

text \<open>Allocating a tree: children first, then the node that refers to them.\<close>

fun realize :: "heap \<Rightarrow> tree \<Rightarrow> heap \<times> jsval"
  and realize_list :: "heap \<Rightarrow> tree list \<Rightarrow> heap \<times> jsval list"
  and realize_members :: "heap \<Rightarrow> (string \<times> tree) list \<Rightarrow> heap \<times> (string \<times> jsval) list"
where
  "realize h TUndefined = (h, JUndefined)"
| "realize h TNull = (h, JNull)"
| "realize h (TBool b) = (h, JBool b)"
| "realize h (TNum x) = (h, JNum x)"
| "realize h (TStr s) = (h, JStr s)"
| "realize h (TArr ts) = (let (h1, vs) = realize_list h ts in alloc h1 (JArray vs []))"
| "realize h (TObj ms) =
     (let (h1, ps) = realize_members h ms
      in alloc h1 (JObject (foldl (\<lambda>acc (k, v). AList.update k v acc) [] ps)))"
| "realize_list h [] = (h, [])"
| "realize_list h (t # ts) =
     (let (h1, v) = realize h t; (h2, vs) = realize_list h1 ts in (h2, v # vs))"
| "realize_members h [] = (h, [])"
| "realize_members h (m # ms) =
     (let (h1, v) = realize h (snd m); (h2, ps) = realize_members h1 ms
      in (h2, (fst m, v) # ps))"

definition JSON_parse :: parser where
  "JSON_parse h s = map_option (realize h) (parse_json s)"

section \<open>The field editor: saving\<close>

text \<open>
  \<^verbatim>\<open>onSave\<close> of \<^verbatim>\<open>NodeModal/index.tsx\<close>.  In structured mode the value sent to
  the store is a copy of the current value in which the drafts of the editable
  primitive fields have been coerced and written; \<open>apply_drafts\<close> is the loop over the
  entries of \<^verbatim>\<open>fieldDrafts\<close>.  In raw mode it is the parsed draft text, or the text
  itself when it does not parse.  The deferred refresh of the selection is not part
  of the model.
\<close>

definition READ_ONLY_KEYS :: "string set" where
  "READ_ONLY_KEYS = {''color''}"

definition is_primitive :: "jsval \<Rightarrow> bool" where
  "is_primitive v =
     (v = JNull \<or> typeof v = ''string'' \<or> typeof v = ''number'' \<or> typeof v = ''boolean'')"

definition isObjectNode :: "heap \<Rightarrow> jsval \<Rightarrow> bool" where
  "isObjectNode h v = (typeof v = ''object'' \<and> v \<noteq> JNull \<and> \<not> isArray h v)"

fun apply_drafts ::
    "heap \<Rightarrow> jsval \<Rightarrow> jsval \<Rightarrow> (string \<times> string) list \<Rightarrow> abrupt + heap" where
  "apply_drafts h cur nextObj [] = Inr h"
| "apply_drafts h cur nextObj ((k, draftVal) # rest) =
     (if k \<in> READ_ONLY_KEYS then apply_drafts h cur nextObj rest
      else
        (case js_get h cur k of
           Inl e \<Rightarrow> Inl e
         | Inr orig \<Rightarrow>
             if is_primitive orig then
               (case js_set h nextObj k (coerceLike orig draftVal) of
                  Inl e \<Rightarrow> Inl e
                | Inr h1 \<Rightarrow> apply_drafts h1 cur nextObj rest)
             else apply_drafts h cur nextObj rest))"

record editor =
  currentNodeValue :: jsval
  path :: "step list"
  fieldDrafts :: "(string \<times> string) list"
  textDraft :: string
  isEditing :: bool

text \<open>The value \<^verbatim>\<open>onSave\<close> passes to \<^verbatim>\<open>updateAtPath\<close>.\<close>

definition save_payload :: "parser \<Rightarrow> heap \<Rightarrow> editor \<Rightarrow> abrupt + heap \<times> jsval" where
  "save_payload parse h ed =
     (let cur = currentNodeValue ed
      in if isObjectNode h cur \<and> truthy cur \<and> typeof cur = ''object'' then
           (let (h1, nextObj) = alloc h (JObject (object_spread h cur))
            in case apply_drafts h1 cur nextObj (fieldDrafts ed) of
                 Inl e \<Rightarrow> Inl e
               | Inr h2 \<Rightarrow> Inr (h2, nextObj))
         else
           (case parse h (textDraft ed) of
              None \<Rightarrow> Inr (h, JStr (textDraft ed))
            | Some (h1, v) \<Rightarrow> Inr (h1, v)))"

definition onSave ::
    "parser \<Rightarrow> serialiser \<Rightarrow> heap \<Rightarrow> editor \<Rightarrow> store \<Rightarrow> abrupt + editor \<times> store" where
  "onSave parse stringify h ed st =
     (case save_payload parse h ed of
        Inl e \<Rightarrow> Inl e
      | Inr (h1, nxt) \<Rightarrow>
          (case updateAtPath parse stringify h1 (PathArray (path ed)) nxt st of
             Inl e \<Rightarrow> Inl e
           | Inr st1 \<Rightarrow> Inr (ed\<lparr>isEditing := False\<rparr>, st1)))"

section \<open>Properties of the coercion\<close>

lemma trim_white_space: "list_all is_white_space s \<Longrightarrow> trim s = []"
proof -
  assume "list_all is_white_space s"
  then have d: "dropWhile is_white_space s = []"
    by (simp add: list_all_iff dropWhile_eq_Nil_conv)
  show ?thesis
    unfolding trim_def d by simp
qed

lemmas Number_eval =
  Number_def trim_def is_white_space_def parse_non_decimal_def parse_decimal_def
  parse_unsigned_decimal_def parse_exponent_def is_digit_def hex_digit_def dec_def
  scale10_def negate_def

lemma Number_17: "Number ''17'' = Finite 17"
  by (simp add: Number_eval)

lemma Number_abc: "Number ''abc'' = NaN"
  by (simp add: Number_eval)

text \<open>
  C5 (type-preserving coercion).  A numeric original takes the number the draft text
  parses to and is kept when the text parses to NaN; a boolean original takes
  \<open>true\<close> or \<open>false\<close> when the trimmed, lower-cased text is that literal
  and is kept otherwise; a null original stays null exactly when the trimmed,
  lower-cased text is \<open>null\<close> and otherwise becomes the text itself; every other
  original (a text, an absent value, a container) becomes the text verbatim.  With the
  original 42, the text \<open>17\<close> gives 17 and the text \<open>abc\<close> gives 42.
\<close>

theorem coerceLike_type_preserving:
  "coerceLike (JNum m) s = (if Number s = NaN then JNum m else JNum (Number s))
   \<and> coerceLike (JBool b) s =
       (if toLowerCase (trim s) = ''true'' then JBool True
        else if toLowerCase (trim s) = ''false'' then JBool False
        else JBool b)
   \<and> coerceLike JNull s = (if toLowerCase (trim s) = ''null'' then JNull else JStr s)
   \<and> (coerceLike JNull s = JNull) = (toLowerCase (trim s) = ''null'')
   \<and> coerceLike (JStr t) s = JStr s
   \<and> coerceLike JUndefined s = JStr s
   \<and> coerceLike (JRef a) s = JStr s
   \<and> coerceLike (JNum (Finite 42)) ''17'' = JNum (Finite 17)
   \<and> coerceLike (JNum (Finite 42)) ''abc'' = JNum (Finite 42)"
proof -
  have num: "coerceLike (JNum m) s = (if Number s = NaN then JNum m else JNum (Number s))"
    for m s
    by (simp add: coerceLike_def Number_isNaN_def Let_def)
  have bool: "coerceLike (JBool b) s =
       (if toLowerCase (trim s) = ''true'' then JBool True
        else if toLowerCase (trim s) = ''false'' then JBool False
        else JBool b)"
    by (simp add: coerceLike_def Let_def)
  have null: "coerceLike JNull s = (if toLowerCase (trim s) = ''null'' then JNull else JStr s)"
    by (simp add: coerceLike_def Let_def)
  have other: "coerceLike (JStr t) s = JStr s" "coerceLike JUndefined s = JStr s"
    "coerceLike (JRef a) s = JStr s"
    by (simp_all add: coerceLike_def)
  have ex17: "coerceLike (JNum (Finite 42)) ''17'' = JNum (Finite 17)"
    by (simp add: num Number_17)
  have exabc: "coerceLike (JNum (Finite 42)) ''abc'' = JNum (Finite 42)"
    by (simp add: num Number_abc)
  from num bool null other ex17 exabc show ?thesis
    by simp
qed

text \<open>
  C10 (empty draft on a numeric original).  A draft text that is empty or holds only
  white space parses as zero, not as NaN, so the coerced value of any numeric original
  is the number 0 and not the original.
\<close>

theorem coerceLike_blank_is_zero:
  "list_all is_white_space s \<Longrightarrow> coerceLike (JNum n) s = JNum (Finite 0)"
proof -
  assume "list_all is_white_space s"
  then have "trim s = []"
    by (rule trim_white_space)
  then have "Number s = Finite 0"
    by (simp add: Number_def)
  then show ?thesis
    by (simp add: coerceLike_def Number_isNaN_def)
qed

theorem coerceLike_blank_is_zero_witness:
  "list_all is_white_space ''   ''
   \<and> coerceLike (JNum (Finite 42)) ''   '' = JNum (Finite 0)
   \<and> coerceLike (JNum (Finite 42)) [] = JNum (Finite 0)
   \<and> JNum (Finite 0) \<noteq> JNum (Finite 42)"
proof -
  have ws: "list_all is_white_space ''   ''"
    by (simp add: is_white_space_def)
  have e: "list_all is_white_space []"
    by simp
  show ?thesis
    using ws coerceLike_blank_is_zero [OF ws, of "Finite 42"]
      coerceLike_blank_is_zero [OF e, of "Finite 42"]
    by simp
qed

section \<open>Property keys and single reads and writes\<close>














section \<open>Canonical indices\<close>






section \<open>Plain keys\<close>




lemma plain_step_safe: "plain_step s \<Longrightarrow> safe_step s"
  by (simp add: plain_step_def)

lemma plain_step_key: "plain_step s \<Longrightarrow> \<not> builtin_name (to_key s)"
  by (simp add: plain_step_def)











lemmas heap_eval =
  updateValueAtPath_def clone_root_def clone_child_def alloc_def isArray_def deref_def
  object_spread_def array_spread_def indexed_def js_get_opt_def js_get_def js_set_def
  nullish_def property_def get_prop_def set_prop_def set_named_def lookup_def to_key_def
  truthy_def typeof_def array_index_def canonical_index_def is_digit_def decimal_def
  show_nat.simps is_container_def safe_step_def builtin_name_def builtin_names_def
  object_prototype_member_def object_prototype_methods_def builtin_prop_def
  ToNumber_def array_length_def set_length_def proto_setter_ignores_def
  navigate.simps getValueAtPath.simps char_of_def bit_0

section \<open>Reading along a path\<close>




declare getValueAtPath.simps(2) [simp del]

lemma val_ok_not_builtin: "val_ok h v \<Longrightarrow> \<forall>b. v \<noteq> JBuiltin b"
  by (auto simp add: val_ok_def)





section \<open>Closed heaps\<close>

lemma val_ok_undefined: "val_ok h JUndefined"
  by (simp add: val_ok_def)

lemma lookup_ok: "list_all (val_ok h) (map snd ps) \<Longrightarrow> val_ok h (lookup ps k)"
  by (auto simp add: lookup_def val_ok_undefined list_all_iff split: option.splits
      dest!: map_of_SomeD)

lemma get_data_ok:
  assumes "list_all (val_ok h) (obj_values ob)"
  shows "val_ok h (get_data ob k)"
proof (cases ob)
  case (JObject ps)
  with assms show ?thesis
    by (simp add: get_data_def obj_values_def lookup_ok)
next
  case (JArray xs ps)
  with assms have xs: "list_all (val_ok h) xs" and ps: "list_all (val_ok h) (map snd ps)"
    by (simp_all add: obj_values_def)
  show ?thesis
  proof (cases "array_index k")
    case None
    with JArray ps show ?thesis
      by (simp add: get_data_def lookup_ok)
  next
    case (Some i)
    with JArray xs show ?thesis
      by (simp add: get_data_def val_ok_undefined list_all_length)
  qed
qed

lemma heap_closed_cell:
  "heap_closed h \<Longrightarrow> a < length h \<Longrightarrow> list_all (val_ok h) (obj_values (h ! a))"
  by (simp add: heap_closed_def list_all_length)

lemma data_prop_ok:
  assumes "heap_closed h"
  shows "val_ok h (data_prop h v k)"
proof (cases v)
  case (JRef a)
  show ?thesis
  proof (cases "a < length h")
    case True
    with assms JRef show ?thesis
      by (simp add: data_prop_def deref_def get_data_ok heap_closed_cell)
  next
    case False
    with JRef show ?thesis
      by (simp add: data_prop_def deref_def get_data_def lookup_def val_ok_undefined)
  qed
next
  case (JStr s)
  then show ?thesis
    by (simp add: data_prop_def val_ok_def split: option.splits)
qed (simp_all add: data_prop_def val_ok_undefined)

lemma data_opt_ok: "heap_closed h \<Longrightarrow> val_ok h (data_opt h v k)"
  by (simp add: data_opt_def data_prop_ok val_ok_undefined)

lemma extends_nth: "extends h' h \<Longrightarrow> a < length h \<Longrightarrow> h' ! a = h ! a"
  by (metis extends_def nth_take)

lemma extendsI:
  "length h \<le> length h' \<Longrightarrow> (\<And>a. a < length h \<Longrightarrow> h' ! a = h ! a) \<Longrightarrow> extends h' h"
  by (simp add: extends_def list_eq_iff_nth_eq)

lemma extends_refl: "extends h h"
  by (simp add: extends_def)







section \<open>The heap an update leaves\<close>







declare navigate.simps(2) [simp del]





section \<open>What an update leaves alone\<close>


lemma data_opt_not_builtin: "heap_closed h \<Longrightarrow> \<forall>b. data_opt h src k \<noteq> JBuiltin b"
  using data_opt_ok [of h src k] by (simp add: val_ok_not_builtin)








section \<open>Documents read from a text\<close>

text \<open>
  The reference reader allocates every array and every map of the document it
  reads, children before their parent, so what it returns is a value of a
  document heap: the hypotheses under which the properties of an update are
  stated below hold for every document this reader produces.
\<close>

lemma val_ok_extends: "val_ok h v \<Longrightarrow> extends h' h \<Longrightarrow> val_ok h' v"
  by (cases v) (simp_all add: val_ok_def extends_def)

lemma list_all_val_ok_extends:
  "list_all (val_ok h) vs \<Longrightarrow> extends h' h \<Longrightarrow> list_all (val_ok h') vs"
  by (auto simp add: list_all_iff intro: val_ok_extends)

lemma extends_trans: "extends h2 h1 \<Longrightarrow> extends h1 h \<Longrightarrow> extends h2 h"
  by (rule extendsI) (simp_all add: extends_def, metis extends_def extends_nth le_trans less_le_trans nth_take order_refl)

lemma extends_snoc: "extends (h @ [ob]) h"
  by (simp add: extends_def)

lemma document_heap_snoc:
  assumes "document_heap h" "list_all (val_ok (h @ [ob])) (obj_values ob)" "plain_array ob"
  shows "document_heap (h @ [ob])"
proof -
  from assms(1) have "list_all (\<lambda>o'. list_all (val_ok h) (obj_values o')) h"
    by (simp add: document_heap_def heap_closed_def)
  then have "list_all (\<lambda>o'. list_all (val_ok (h @ [ob])) (obj_values o')) h"
    by (simp add: list_all_iff val_ok_extends [OF _ extends_snoc])
  with assms show ?thesis
    by (simp add: document_heap_def heap_closed_def)
qed

lemma update_values_ok:
  "P v \<Longrightarrow> list_all P (map snd al) \<Longrightarrow> list_all P (map snd (AList.update k v al))"
  by (induction al) auto

lemma foldl_update_values_ok:
  "list_all P (map snd ps) \<Longrightarrow> list_all P (map snd acc) \<Longrightarrow>
   list_all P (map snd (foldl (\<lambda>acc (k, v). AList.update k v acc) acc ps))"
  by (induction ps arbitrary: acc) (auto simp add: update_values_ok)

lemma realize_document:
  "document_heap h \<Longrightarrow> realize h t = (h', v) \<Longrightarrow>
     document_heap h' \<and> extends h' h \<and> val_ok h' v"
  "document_heap h \<Longrightarrow> realize_list h ts = (h', vs) \<Longrightarrow>
     document_heap h' \<and> extends h' h \<and> list_all (val_ok h') vs"
  "document_heap h \<Longrightarrow> realize_members h ms = (h', ps) \<Longrightarrow>
     document_heap h' \<and> extends h' h \<and> list_all (val_ok h') (map snd ps)"
proof (induction h t and h ts and h ms arbitrary: h' v and h' vs and h' ps
    rule: realize_realize_list_realize_members.induct)
  case (6 h ts)
  obtain h1 xs where r: "realize_list h ts = (h1, xs)"
    by (cases "realize_list h ts")
  from "6.IH" [OF "6.prems"(1) r] have IH: "document_heap h1" "extends h1 h"
    "list_all (val_ok h1) xs"
    by simp_all
  from "6.prems"(2) r have res: "h' = h1 @ [JArray xs []]" "v = JRef (length h1)"
    by (simp_all add: alloc_def)
  from IH(3) have "list_all (val_ok (h1 @ [JArray xs []])) (obj_values (JArray xs []))"
    by (simp add: obj_values_def list_all_val_ok_extends [OF _ extends_snoc])
  with IH(1) have "document_heap (h1 @ [JArray xs []])"
    by (rule document_heap_snoc) (simp add: plain_array_def)
  moreover from IH(2) have "extends (h1 @ [JArray xs []]) h"
    by (rule extends_trans [OF extends_snoc])
  ultimately show ?case
    using res by (simp add: val_ok_def)
next
  case (7 h ms)
  obtain h1 qs where r: "realize_members h ms = (h1, qs)"
    by (cases "realize_members h ms")
  let ?ob = "JObject (foldl (\<lambda>acc (k, v). AList.update k v acc) [] qs)"
  from "7.IH" [OF "7.prems"(1) r] have IH: "document_heap h1" "extends h1 h"
    "list_all (val_ok h1) (map snd qs)"
    by simp_all
  from "7.prems"(2) r have res: "h' = h1 @ [?ob]" "v = JRef (length h1)"
    by (simp_all add: alloc_def)
  from IH(3) have "list_all (val_ok (h1 @ [?ob])) (map snd qs)"
    by (rule list_all_val_ok_extends [OF _ extends_snoc])
  then have "list_all (val_ok (h1 @ [?ob])) (obj_values ?ob)"
    by (simp add: obj_values_def foldl_update_values_ok)
  with IH(1) have "document_heap (h1 @ [?ob])"
    by (rule document_heap_snoc) (simp add: plain_array_def)
  moreover from IH(2) have "extends (h1 @ [?ob]) h"
    by (rule extends_trans [OF extends_snoc])
  ultimately show ?case
    using res by (simp add: val_ok_def)
next
  case (9 h t ts)
  obtain h1 x where r1: "realize h t = (h1, x)"
    by (cases "realize h t")
  obtain h2 xs where r2: "realize_list h1 ts = (h2, xs)"
    by (cases "realize_list h1 ts")
  from "9.IH"(1) [OF "9.prems"(1) r1] have 1: "document_heap h1" "extends h1 h" "val_ok h1 x"
    by simp_all
  from "9.IH"(2) [OF r1 [symmetric] refl 1(1) r2] have 2: "document_heap h2" "extends h2 h1"
    "list_all (val_ok h2) xs"
    by simp_all
  from "9.prems"(2) r1 r2 have res: "h' = h2" "vs = x # xs"
    by simp_all
  from 1 2 res show ?case
    by (simp add: val_ok_extends extends_trans [OF 2(2) 1(2)])
next
  case (11 h m ms)
  obtain h1 x where r1: "realize h (snd m) = (h1, x)"
    by (cases "realize h (snd m)")
  obtain h2 qs where r2: "realize_members h1 ms = (h2, qs)"
    by (cases "realize_members h1 ms")
  from "11.IH"(1) [OF "11.prems"(1) r1] have 1: "document_heap h1" "extends h1 h" "val_ok h1 x"
    by simp_all
  from "11.IH"(2) [OF r1 [symmetric] refl 1(1) r2] have 2: "document_heap h2" "extends h2 h1"
    "list_all (val_ok h2) (map snd qs)"
    by simp_all
  from "11.prems"(2) r1 r2 have res: "h' = h2" "ps = (fst m, x) # qs"
    by simp_all
  from 1 2 res show ?case
    by (simp add: val_ok_extends extends_trans [OF 2(2) 1(2)])
qed (auto simp add: val_ok_def extends_def)

lemma JSON_parse_document:
  "document_heap h \<Longrightarrow> JSON_parse h s = Some (h', v) \<Longrightarrow>
   document_heap h' \<and> extends h' h \<and> val_ok h' v"
  by (auto simp add: JSON_parse_def dest: realize_document(1))
section \<open>Properties of the navigation primitives\<close>


text \<open>
  C3 (root replacement).  With the empty path, and with a path argument that is not
  an array, the result is the new value itself; nothing is allocated or changed.
\<close>

theorem updateValueAtPath_root_replacement:
  "updateValueAtPath h d (PathArray []) v = Inr (h, v)
   \<and> updateValueAtPath h d NotAnArray v = Inr (h, v)"
  by (simp add: updateValueAtPath_def)







text \<open>
  C6 (the clone follows the source).  A child that is a text is replaced by an empty
  object, but a root that is a text is not: spreading it copies its characters, so
  the result of an update at a text root holds them next to the new entry.  A number
  at the root gives the empty object, as every non-container child does.
\<close>

theorem text_root_clone_keeps_characters:
  "updateValueAtPath [] (JStr ''ab'') (PathArray [Key ''x'']) (JNum (Finite 1)) =
     Inr ([JObject [(''0'', JStr ''a''), (''1'', JStr ''b''), (''x'', JNum (Finite 1))]], JRef 0)
   \<and> clone_root [] (JStr ''ab'') = JObject [(''0'', JStr ''a''), (''1'', JStr ''b'')]
   \<and> clone_child [] (JStr ''ab'') = JObject []
   \<and> updateValueAtPath [] (JNum (Finite 7)) (PathArray [Key ''x'']) (JNum (Finite 1)) =
     Inr ([JObject [(''x'', JNum (Finite 1))]], JRef 0)"
  by (simp add: heap_eval)







section \<open>Properties of the store\<close>

lemmas json_eval =
  JSON_parse_def parse_json_def skip_ws_def json_ws_def parse_json_number_def
  number_char_def simple_escape_def hex4_def Number_eval alloc_def

lemma JSON_parse_empty_object: "JSON_parse [] ''{}'' = Some ([JObject []], JRef 0)"
  by (simp add: json_eval)

lemma JSON_parse_empty_text: "JSON_parse h [] = None"
  by (simp add: json_eval)

lemma JSON_parse_not_json: "JSON_parse h ''{not json'' = None"
  by (simp add: json_eval)

lemma setJson_changes: "setJson txt st \<noteq> st"
proof
  assume "setJson txt st = st"
  then have "length (graph_calls (setJson txt st)) = length (graph_calls st)"
    by simp
  then show False
    by (simp add: setJson_def)
qed

text \<open>
  C4 (bad-state no-op), as the code has it.  When the stored text is not empty and
  does not parse, \<^verbatim>\<open>updateAtPath\<close> returns normally and leaves the store as it
  was: the text, the loading flag, and what was sent to the graph and file
  collaborators.  This holds for every parser and serialiser.
\<close>

theorem updateAtPath_bad_state_noop:
  "json st \<noteq> [] \<Longrightarrow> parse h (json st) = None \<Longrightarrow>
   updateAtPath parse stringify h p v st = Inr st"
  by (simp add: updateAtPath_def)

theorem updateAtPath_bad_state_noop_witness:
  "json \<lparr>json = ''{not json'', loading = True, graph_calls = [], file_calls = []\<rparr> \<noteq> []
   \<and> JSON_parse [] (json \<lparr>json = ''{not json'', loading = True, graph_calls = [],
        file_calls = []\<rparr>) = None
   \<and> (\<forall>stringify. updateAtPath JSON_parse stringify [] (PathArray [Key ''x''])
         (JNum (Finite 1))
         \<lparr>json = ''{not json'', loading = True, graph_calls = [], file_calls = []\<rparr> =
       Inr \<lparr>json = ''{not json'', loading = True, graph_calls = [], file_calls = []\<rparr>)"
proof -
  let ?st = "\<lparr>json = ''{not json'', loading = True, graph_calls = [], file_calls = []\<rparr>"
  have 1: "json ?st \<noteq> []"
    by simp
  have 2: "JSON_parse [] (json ?st) = None"
    by (simp add: JSON_parse_not_json)
  from 1 2 updateAtPath_bad_state_noop [where parse = JSON_parse and h = "[]" and st = ?st, OF 1 2]
  show ?thesis
    by blast
qed

text \<open>
  The restriction to a non-empty text is needed.  After \<^verbatim>\<open>clear\<close> the stored text
  is empty; it does not parse as JSON, but \<^verbatim>\<open>get().json || "{}"\<close> reads it as the
  empty object, so the update goes through and the store changes, whatever the
  serialiser does.
\<close>

theorem updateAtPath_empty_text_counterexample:
  "JSON_parse [] (json (clear initialStates)) = None
   \<and> (\<forall>stringify. updateAtPath JSON_parse stringify [] (PathArray [Key ''x''])
         (JNum (Finite 1)) (clear initialStates) \<noteq> Inr (clear initialStates))"
proof (intro conjI allI)
  show "JSON_parse [] (json (clear initialStates)) = None"
    by (simp add: clear_def JSON_parse_empty_text)
next
  fix stringify :: serialiser
  have upd: "updateValueAtPath [JObject []] (JRef 0) (PathArray [Key ''x'']) (JNum (Finite 1)) =
      Inr ([JObject [], JObject [(''x'', JNum (Finite 1))]], JRef 1)"
    by (simp add: heap_eval)
  show "updateAtPath JSON_parse stringify [] (PathArray [Key ''x'']) (JNum (Finite 1))
      (clear initialStates) \<noteq> Inr (clear initialStates)"
  proof (cases "stringify [JObject [], JObject [(''x'', JNum (Finite 1))]] (JRef 1)")
    case (Inl e)
    then show ?thesis
      by (simp add: updateAtPath_def clear_def JSON_parse_empty_object upd)
  next
    case (Inr t)
    then have "updateAtPath JSON_parse stringify [] (PathArray [Key ''x'']) (JNum (Finite 1))
      (clear initialStates) = Inr (setJson t (clear initialStates))"
      by (simp add: updateAtPath_def clear_def JSON_parse_empty_object upd)
    then show ?thesis
      by (simp add: setJson_changes)
  qed
qed

section \<open>Properties of saving\<close>

lemma object_prototype_member_not_primitive: "\<not> is_primitive (object_prototype_member k)"
  by (simp add: object_prototype_member_def is_primitive_def typeof_def)

lemma apply_drafts_color:
  "a < length h \<Longrightarrow> c < length h \<Longrightarrow> a \<noteq> c \<Longrightarrow> h ! a = JObject ps \<Longrightarrow> h ! c = JObject qs \<Longrightarrow>
   \<forall>k. map_of ps k \<noteq> None \<longrightarrow> map_of qs k \<noteq> None \<Longrightarrow>
   \<exists>h2 qs'. apply_drafts h (JRef a) (JRef c) ds = Inr h2 \<and> length h2 = length h
     \<and> h2 ! c = JObject qs' \<and> map_of qs' ''color'' = map_of qs ''color''"
proof (induction ds arbitrary: h qs)
  case Nil
  then show ?case by simp
next
  case (Cons d ds)
  obtain k draftVal where d: "d = (k, draftVal)"
    by (cases d)
  from Cons.prems have get: "js_get h (JRef a) k =
      Inr (case map_of ps k of Some v \<Rightarrow> v | None \<Rightarrow> object_prototype_member k)"
    by (simp add: js_get_def nullish_def property_def deref_def get_prop_def
        split: option.splits)
  let ?orig = "case map_of ps k of Some v \<Rightarrow> v | None \<Rightarrow> object_prototype_member k"
  show ?case
  proof (cases "k \<in> READ_ONLY_KEYS \<or> \<not> is_primitive ?orig")
    case True
    with d get have "apply_drafts h (JRef a) (JRef c) (d # ds) =
        apply_drafts h (JRef a) (JRef c) ds"
      by auto
    with Cons.IH [OF Cons.prems] show ?thesis
      by simp
  next
    case False
    then have k: "k \<noteq> ''color''" and prim: "is_primitive ?orig"
      by (simp_all add: READ_ONLY_KEYS_def)
    from prim have own: "map_of ps k \<noteq> None"
      by (cases "map_of ps k") (simp_all add: object_prototype_member_not_primitive)
    with Cons.prems(6) have "map_of qs k \<noteq> None"
      by simp
    then have named: "set_named qs k (coerceLike ?orig draftVal) =
        Inr (AList.update k (coerceLike ?orig draftVal) qs)"
      by (auto simp add: set_named_def)
    let ?qs1 = "AList.update k (coerceLike ?orig draftVal) qs"
    let ?h1 = "h[c := JObject ?qs1]"
    from Cons.prems named have set: "js_set h (JRef c) k (coerceLike ?orig draftVal) = Inr ?h1"
      by (simp add: js_set_def set_prop_def)
    from False d get set
    have step: "apply_drafts h (JRef a) (JRef c) (d # ds) = apply_drafts ?h1 (JRef a) (JRef c) ds"
      by simp
    from Cons.prems have 1: "a < length ?h1" "c < length ?h1" "?h1 ! a = JObject ps"
      "?h1 ! c = JObject ?qs1"
      by simp_all
    from Cons.prems(6) have 2: "\<forall>k'. map_of ps k' \<noteq> None \<longrightarrow> map_of ?qs1 k' \<noteq> None"
      by (simp add: update_conv')
    from Cons.IH [OF 1(1,2) Cons.prems(3) 1(3,4) 2] obtain h2 qs' where
      h2: "apply_drafts ?h1 (JRef a) (JRef c) ds = Inr h2" "length h2 = length ?h1"
        "h2 ! c = JObject qs'" "map_of qs' ''color'' = map_of ?qs1 ''color''"
      by blast
    from k have "map_of ?qs1 ''color'' = map_of qs ''color''"
      by (simp add: update_conv')
    with step h2 show ?thesis
      by simp
  qed
qed

text \<open>
  C9 (read-only field preserved).  In a structured save of a plain object that has
  the key \<open>color\<close>, the value sent to the store is a new object whose \<open>color\<close>
  is the one the current value has, whatever the drafts hold.
\<close>

theorem read_only_field_preserved:
  "currentNodeValue ed = JRef a \<Longrightarrow> a < length h \<Longrightarrow> h ! a = JObject ps \<Longrightarrow>
   map_of ps ''color'' = Some x \<Longrightarrow>
   \<exists>h2 nextObj. save_payload parse h ed = Inr (h2, nextObj) \<and> nextObj \<noteq> JRef a
     \<and> js_get h2 nextObj ''color'' = Inr x"
proof -
  assume cur: "currentNodeValue ed = JRef a" and a: "a < length h"
    and ob: "h ! a = JObject ps" and x: "map_of ps ''color'' = Some x"
  let ?h1 = "h @ [JObject ps]"
  from a ob have mode: "isObjectNode h (JRef a)" "truthy (JRef a)" "typeof (JRef a) = ''object''"
    by (simp_all add: isObjectNode_def typeof_def truthy_def isArray_def deref_def)
  from a ob have spread: "object_spread h (JRef a) = ps"
    by (simp add: object_spread_def deref_def)
  from a ob have 1: "a < length ?h1" "length h < length ?h1" "a \<noteq> length h"
    "?h1 ! a = JObject ps" "?h1 ! length h = JObject ps"
    by (simp_all add: nth_append)
  have 2: "\<forall>k. map_of ps k \<noteq> None \<longrightarrow> map_of ps k \<noteq> None"
    by simp
  from apply_drafts_color [OF 1 2, of "fieldDrafts ed"] obtain h2 qs' where
    h2: "apply_drafts ?h1 (JRef a) (JRef (length h)) (fieldDrafts ed) = Inr h2"
      "length h2 = length ?h1" "h2 ! length h = JObject qs'"
      "map_of qs' ''color'' = map_of ps ''color''"
    by blast
  from cur mode spread h2(1)
  have 3: "save_payload parse h ed = Inr (h2, JRef (length h))"
    by (simp add: save_payload_def alloc_def)
  from a have 4: "JRef (length h) \<noteq> JRef a"
    by simp
  from h2 x have 5: "js_get h2 (JRef (length h)) ''color'' = Inr x"
    by (simp add: js_get_def nullish_def property_def deref_def get_prop_def)
  from 3 4 5 show ?thesis
    by blast
qed

theorem read_only_field_preserved_witness:
  "currentNodeValue
      \<lparr>currentNodeValue = JRef 0, path = [],
       fieldDrafts = [(''name'', ''pear''), (''color'', ''#00f''), (''n'', ''4'')],
       textDraft = [], isEditing = True\<rparr> = JRef 0
   \<and> 0 < length [JObject [(''name'', JStr ''apple''), (''color'', JStr ''#f00''),
         (''n'', JNum (Finite 3))]]
   \<and> map_of [(''name'', JStr ''apple''), (''color'', JStr ''#f00''), (''n'', JNum (Finite 3))]
         ''color'' = Some (JStr ''#f00'')
   \<and> (\<exists>h2 nextObj.
         save_payload JSON_parse
           [JObject [(''name'', JStr ''apple''), (''color'', JStr ''#f00''),
              (''n'', JNum (Finite 3))]]
           \<lparr>currentNodeValue = JRef 0, path = [],
            fieldDrafts = [(''name'', ''pear''), (''color'', ''#00f''), (''n'', ''4'')],
            textDraft = [], isEditing = True\<rparr> = Inr (h2, nextObj)
         \<and> nextObj \<noteq> JRef 0 \<and> js_get h2 nextObj ''color'' = Inr (JStr ''#f00''))
   \<and> save_payload JSON_parse
         [JObject [(''name'', JStr ''apple''), (''color'', JStr ''#f00''),
            (''n'', JNum (Finite 3))]]
         \<lparr>currentNodeValue = JRef 0, path = [],
          fieldDrafts = [(''name'', ''pear''), (''color'', ''#00f''), (''n'', ''4'')],
          textDraft = [], isEditing = True\<rparr> =
       Inr ([JObject [(''name'', JStr ''apple''), (''color'', JStr ''#f00''),
               (''n'', JNum (Finite 3))],
             JObject [(''name'', JStr ''pear''), (''color'', JStr ''#f00''),
               (''n'', JNum (Finite 4))]], JRef 1)"
proof -
  let ?ps = "[(''name'', JStr ''apple''), (''color'', JStr ''#f00''), (''n'', JNum (Finite 3))]"
  let ?h = "[JObject ?ps]"
  let ?ed = "\<lparr>currentNodeValue = JRef 0, path = [],
       fieldDrafts = [(''name'', ''pear''), (''color'', ''#00f''), (''n'', ''4'')],
       textDraft = [], isEditing = True\<rparr>"
  have 1: "currentNodeValue ?ed = JRef 0"
    by simp
  have 2: "0 < length ?h"
    by simp
  have 3: "?h ! 0 = JObject ?ps"
    by simp
  have 4: "map_of ?ps ''color'' = Some (JStr ''#f00'')"
    by simp
  have 5: "save_payload JSON_parse ?h ?ed =
       Inr ([JObject ?ps,
             JObject [(''name'', JStr ''pear''), (''color'', JStr ''#f00''),
               (''n'', JNum (Finite 4))]], JRef 1)"
    by (simp add: save_payload_def isObjectNode_def heap_eval READ_ONLY_KEYS_def
        is_primitive_def coerceLike_def Number_eval Number_isNaN_def)
  from 1 2 4 5 read_only_field_preserved [OF 1 2 3 4, of JSON_parse] show ?thesis
    by blast
qed

end
